theory Spec2Isabelle
  imports Complex_Main
begin

section \<open>The risk engine of \<open>Live.py\<close>\<close>

text \<open>
  The position-sizing functions of \<open>src/Live.py\<close> (lines 58 to 159), embedded as HOL
  functions. Conventions of the embedding:
  \<^item> a Python \<open>float\<close> is a \<open>real\<close>: arithmetic is exact, there is no rounding, no
    underflow, no infinity and no NaN. The claims proved below are about the control flow,
    the guards and the data flow of the functions; none of their statements rests on a
    result of the arithmetic being exact, and a property that is true of exact arithmetic
    only (such as a strict inequality between an entry and its liquidation price, which
    rounding can turn into an equality) is not stated. The lemmas under Basic facts give
    closed forms in exact arithmetic and serve the proofs only;
  \<^item> \<open>Side = Literal["long", "short"]\<close> is a datatype of two values; strings outside
    the declared type are not inputs of the model;
  \<^item> \<open>Optional[float]\<close> is \<open>real option\<close>;
  \<^item> a raise is the left injection of a sum. \<open>ValueError\<close> is raised by the source
    itself, \<open>ZeroDivisionError\<close> is what Python's \<open>/\<close> raises on a zero divisor, so
    every division of the source goes through \<open>py_div\<close>;
  \<^item> the dictionary returned by \<open>recommend_units\<close> has a fixed set of string keys with
    values of different types; it is the record \<open>RiskAssessment\<close>, one field for each key
    (prefixed \<open>res_\<close>, since the keys repeat the names of inputs and functions).
\<close>

datatype Side = Long | Short

datatype error = ValueError string | ZeroDivisionError

record RiskInput =
  equity_usd :: real
  entry :: real
  leverage :: real
  side :: Side
  stop_loss :: "real option"
  risk_percent :: real

record RiskAssessment =
  res_entry :: real
  res_live_price :: real
  res_side :: Side
  res_leverage :: real
  res_equity_usd :: real
  res_stop_loss :: "real option"
  res_risk_percent :: real
  res_liquidation_price :: real
  res_margin_per_unit :: real
  res_max_units_by_margin :: real
  res_per_unit_risk :: real
  res_units_by_risk :: real
  res_recommended_units :: real
  res_recommended_margin_capital :: real

subsection \<open>Python primitives\<close>

text \<open>Float division \<open>a / b\<close>: raises on a zero divisor.\<close>

definition py_div :: "real \<Rightarrow> real \<Rightarrow> error + real" where
  "py_div a b = (if b = 0 then Inl ZeroDivisionError else Inr (a / b))"

text \<open>Sequencing of a computation that may raise: the first error is propagated.\<close>

definition and_then :: "error + 'a \<Rightarrow> ('a \<Rightarrow> error + 'b) \<Rightarrow> error + 'b" where
  "and_then m f = (case m of Inl err \<Rightarrow> Inl err | Inr v \<Rightarrow> f v)"

text \<open>
  The builtin \<open>min\<close> on a non-empty list: the first element is the running minimum and a
  later element replaces it only when strictly smaller.
\<close>

definition py_min :: "real \<Rightarrow> real list \<Rightarrow> real" where
  "py_min c cs = foldl (\<lambda>m x. if x < m then x else m) c cs"

subsection \<open>The functions of the source\<close>

text \<open>Lines 69 to 79.\<close>

definition liquidation_price :: "real \<Rightarrow> real \<Rightarrow> Side \<Rightarrow> error + real" where
  "liquidation_price entry' leverage' side' =
     (if leverage' \<le> 0 then Inl (ValueError ''leverage must be positive'')
      else if side' = Long
        then and_then (py_div 1 leverage') (\<lambda>q. Inr (entry' * (1 - q)))
        else and_then (py_div 1 leverage') (\<lambda>q. Inr (entry' * (1 + q))))"

text \<open>Lines 81 to 84.\<close>

definition margin_per_unit :: "real \<Rightarrow> real \<Rightarrow> error + real" where
  "margin_per_unit entry' leverage' =
     (if leverage' \<le> 0 then Inl (ValueError ''leverage must be positive'')
      else py_div entry' leverage')"

text \<open>Lines 86 to 91.\<close>

definition max_units_affordable :: "real \<Rightarrow> real \<Rightarrow> real \<Rightarrow> error + real" where
  "max_units_affordable equity' entry' leverage' =
     and_then (margin_per_unit entry' leverage') (\<lambda>mpu.
       if mpu \<le> 0 then Inr 0 else py_div equity' mpu)"

text \<open>Lines 93 to 99. Nothing here can raise.\<close>

definition per_unit_risk :: "real \<Rightarrow> real option \<Rightarrow> Side \<Rightarrow> real" where
  "per_unit_risk entry' stop' side' =
     (case stop' of
        None \<Rightarrow> 0
      | Some sl \<Rightarrow> if side' = Long then max 0 (entry' - sl) else max 0 (sl - entry'))"

text \<open>Lines 101 to 110.\<close>

definition safe_units_by_risk :: "real \<Rightarrow> real \<Rightarrow> real \<Rightarrow> error + real" where
  "safe_units_by_risk equity' risk' pu_risk =
     (let risk_dollar = equity' * max 0 risk'
      in if pu_risk \<le> 0 then Inr 0 else py_div risk_dollar pu_risk)"

text \<open>
  Lines 112 to 159. \<open>candidates\<close> always holds \<open>max_by_margin\<close>, so the \<open>else 0.0\<close> of
  line 134 is the \<open>[]\<close> case below.
\<close>

definition recommend_units :: "RiskInput \<Rightarrow> real \<Rightarrow> error + RiskAssessment" where
  "recommend_units inp live_price =
     and_then (liquidation_price (entry inp) (leverage inp) (side inp)) (\<lambda>liq.
     and_then (margin_per_unit (entry inp) (leverage inp)) (\<lambda>mpu.
     and_then (max_units_affordable (equity_usd inp) (entry inp) (leverage inp)) (\<lambda>max_by_margin.
     let pu_risk = per_unit_risk (entry inp) (stop_loss inp) (side inp) in
     and_then (safe_units_by_risk (equity_usd inp) (risk_percent inp) pu_risk) (\<lambda>units_by_risk.
     let candidates = [max_by_margin] @ (if units_by_risk > 0 then [units_by_risk] else []);
         rec_units = (case candidates of [] \<Rightarrow> 0 | c # cs \<Rightarrow> py_min c cs);
         rec_units = (if (side inp = Long \<and> live_price \<le> liq) \<or> (side inp = Short \<and> live_price \<ge> liq)
                      then 0 else rec_units);
         capital_margin = rec_units * mpu
     in Inr \<lparr> res_entry = entry inp,
              res_live_price = live_price,
              res_side = side inp,
              res_leverage = leverage inp,
              res_equity_usd = equity_usd inp,
              res_stop_loss = stop_loss inp,
              res_risk_percent = risk_percent inp,
              res_liquidation_price = liq,
              res_margin_per_unit = mpu,
              res_max_units_by_margin = max_by_margin,
              res_per_unit_risk = pu_risk,
              res_units_by_risk = units_by_risk,
              res_recommended_units = rec_units,
              res_recommended_margin_capital = capital_margin \<rparr>))))"

section \<open>Basic facts\<close>

lemma liquidation_price_pos:
  "0 < l \<Longrightarrow> liquidation_price e l s = Inr (if s = Long then e * (1 - 1 / l) else e * (1 + 1 / l))"
  by (simp add: liquidation_price_def py_div_def and_then_def)

lemma liquidation_price_nonpos:
  "l \<le> 0 \<Longrightarrow> liquidation_price e l s = Inl (ValueError ''leverage must be positive'')"
  by (simp add: liquidation_price_def)

lemma margin_per_unit_pos: "0 < l \<Longrightarrow> margin_per_unit e l = Inr (e / l)"
  by (simp add: margin_per_unit_def py_div_def)

lemma margin_per_unit_nonpos:
  "l \<le> 0 \<Longrightarrow> margin_per_unit e l = Inl (ValueError ''leverage must be positive'')"
  by (simp add: margin_per_unit_def)

lemma max_units_affordable_pos:
  "0 < l \<Longrightarrow> max_units_affordable q e l = Inr (if e \<le> 0 then 0 else q / (e / l))"
  by (simp add: max_units_affordable_def margin_per_unit_pos and_then_def py_div_def
      divide_le_0_iff)

lemma max_units_affordable_nonpos:
  "l \<le> 0 \<Longrightarrow> max_units_affordable q e l = Inl (ValueError ''leverage must be positive'')"
  by (simp add: max_units_affordable_def margin_per_unit_nonpos and_then_def)

lemma safe_units_by_risk_total:
  "safe_units_by_risk q r pu = Inr (if pu \<le> 0 then 0 else q * max 0 r / pu)"
  by (simp add: safe_units_by_risk_def py_div_def Let_def)

text \<open>
  Lines 130 to 134: the minimum of the candidates is the risk-based cap when that cap is
  positive and below the margin-based one, and the margin-based cap otherwise.
\<close>

lemma candidates_min:
  "(case [m] @ (if 0 < u then [u] else []) of [] \<Rightarrow> 0 | c # cs \<Rightarrow> py_min c cs) =
     (if 0 < u \<and> u < m then u else m)"
  by (simp add: py_min_def)

text \<open>With a positive leverage no step raises, and the result is the following record.\<close>

lemma recommend_units_pos:
  assumes "0 < leverage inp"
  shows "recommend_units inp p =
    (let liq = (if side inp = Long then entry inp * (1 - 1 / leverage inp)
                else entry inp * (1 + 1 / leverage inp));
         mpu = entry inp / leverage inp;
         max_by_margin = (if entry inp \<le> 0 then 0 else equity_usd inp / mpu);
         pu_risk = per_unit_risk (entry inp) (stop_loss inp) (side inp);
         units_by_risk =
           (if pu_risk \<le> 0 then 0 else equity_usd inp * max 0 (risk_percent inp) / pu_risk);
         rec_units =
           (if (side inp = Long \<and> p \<le> liq) \<or> (side inp = Short \<and> liq \<le> p) then 0
            else if 0 < units_by_risk \<and> units_by_risk < max_by_margin then units_by_risk
            else max_by_margin)
     in Inr \<lparr> res_entry = entry inp,
              res_live_price = p,
              res_side = side inp,
              res_leverage = leverage inp,
              res_equity_usd = equity_usd inp,
              res_stop_loss = stop_loss inp,
              res_risk_percent = risk_percent inp,
              res_liquidation_price = liq,
              res_margin_per_unit = mpu,
              res_max_units_by_margin = max_by_margin,
              res_per_unit_risk = pu_risk,
              res_units_by_risk = units_by_risk,
              res_recommended_units = rec_units,
              res_recommended_margin_capital = rec_units * mpu \<rparr>)"
  unfolding recommend_units_def liquidation_price_pos [OF assms] margin_per_unit_pos [OF assms]
    max_units_affordable_pos [OF assms] safe_units_by_risk_total and_then_def Let_def
    sum.case candidates_min
  by (rule refl)

lemma recommend_units_nonpos:
  "leverage inp \<le> 0 \<Longrightarrow>
     recommend_units inp p = Inl (ValueError ''leverage must be positive'')"
  by (simp add: recommend_units_def liquidation_price_nonpos and_then_def)

text \<open>The same result, read field by field.\<close>

lemma recommend_units_fields:
  assumes "0 < leverage inp"
  obtains r where "recommend_units inp p = Inr r"
    and "res_liquidation_price r =
           (if side inp = Long then entry inp * (1 - 1 / leverage inp)
            else entry inp * (1 + 1 / leverage inp))"
    and "res_margin_per_unit r = entry inp / leverage inp"
    and "res_max_units_by_margin r =
           (if entry inp \<le> 0 then 0 else equity_usd inp / (entry inp / leverage inp))"
    and "res_per_unit_risk r = per_unit_risk (entry inp) (stop_loss inp) (side inp)"
    and "res_units_by_risk r =
           (if res_per_unit_risk r \<le> 0 then 0
            else equity_usd inp * max 0 (risk_percent inp) / res_per_unit_risk r)"
    and "res_recommended_units r =
           (if (side inp = Long \<and> p \<le> res_liquidation_price r)
               \<or> (side inp = Short \<and> res_liquidation_price r \<le> p) then 0
            else if 0 < res_units_by_risk r \<and> res_units_by_risk r < res_max_units_by_margin r
              then res_units_by_risk r
            else res_max_units_by_margin r)"
    and "res_recommended_margin_capital r = res_recommended_units r * res_margin_per_unit r"
  using that unfolding recommend_units_pos [OF assms] Let_def
  by simp

section \<open>Liquidation safety override\<close>

text \<open>
  Claim C1. For every request with a positive leverage and every live price: when the side
  is long and the live price is at or below the liquidation price, or the side is short and
  the live price is at or above it, \<open>recommend_units\<close> returns a result whose recommended
  units are 0, whatever the margin-based and risk-based caps are.
\<close>

theorem liquidation_override:
  assumes "0 < leverage inp"
    and "liquidation_price (entry inp) (leverage inp) (side inp) = Inr liq"
    and "(side inp = Long \<and> p \<le> liq) \<or> (side inp = Short \<and> liq \<le> p)"
  shows "\<exists>r. recommend_units inp p = Inr r \<and> res_recommended_units r = 0"
proof -
  from assms(1,2)
  have liq: "liq = (if side inp = Long then entry inp * (1 - 1 / leverage inp)
                    else entry inp * (1 + 1 / leverage inp))"
    by (simp add: liquidation_price_pos)
  from assms(3) show ?thesis
    unfolding recommend_units_pos [OF assms(1)] Let_def liq by auto
qed

theorem liquidation_override_witness:
  "0 < leverage \<lparr>equity_usd = 10000, entry = 50000, leverage = 10, side = Long,
        stop_loss = Some 49000, risk_percent = 2 / 100\<rparr>
   \<and> liquidation_price 50000 10 Long = Inr 45000
   \<and> (44000::real) \<le> 45000
   \<and> (\<exists>r. recommend_units \<lparr>equity_usd = 10000, entry = 50000, leverage = 10, side = Long,
              stop_loss = Some 49000, risk_percent = 2 / 100\<rparr> 44000 = Inr r
          \<and> res_recommended_units r = 0)"
  using liquidation_override [of "\<lparr>equity_usd = 10000, entry = 50000, leverage = 10,
        side = Long, stop_loss = Some 49000, risk_percent = 2 / 100\<rparr>" 45000 44000]
  by (simp add: liquidation_price_pos)

section \<open>Scenario B\<close>

text \<open>
  Claim C2. For equity 10000, entry 50000, leverage 10, side long, stop 49000 and risk
  fraction 0.02, at any live price above the liquidation price, \<open>recommend_units\<close>
  returns per-unit risk 1000, units by risk 0.2, maximum units by margin 2, recommended
  units 0.2 and recommended margin capital 1000 (with liquidation price 45000 and margin
  per unit 5000).
\<close>

theorem scenario_B:
  assumes "liquidation_price 50000 10 Long = Inr liq" and "liq < p"
  shows "recommend_units \<lparr>equity_usd = 10000, entry = 50000, leverage = 10, side = Long,
            stop_loss = Some 49000, risk_percent = 2 / 100\<rparr> p =
         Inr \<lparr> res_entry = 50000, res_live_price = p, res_side = Long, res_leverage = 10,
               res_equity_usd = 10000, res_stop_loss = Some 49000, res_risk_percent = 2 / 100,
               res_liquidation_price = 45000, res_margin_per_unit = 5000,
               res_max_units_by_margin = 2, res_per_unit_risk = 1000,
               res_units_by_risk = 2 / 10, res_recommended_units = 2 / 10,
               res_recommended_margin_capital = 1000 \<rparr>"
proof -
  from assms have "45000 < p" by (simp add: liquidation_price_pos)
  then show ?thesis
    by (simp add: recommend_units_pos per_unit_risk_def Let_def)
qed

theorem scenario_B_witness:
  "liquidation_price 50000 10 Long = Inr 45000 \<and> (45000::real) < 50000
   \<and> recommend_units \<lparr>equity_usd = 10000, entry = 50000, leverage = 10, side = Long,
            stop_loss = Some 49000, risk_percent = 2 / 100\<rparr> 50000 =
         Inr \<lparr> res_entry = 50000, res_live_price = 50000, res_side = Long, res_leverage = 10,
               res_equity_usd = 10000, res_stop_loss = Some 49000, res_risk_percent = 2 / 100,
               res_liquidation_price = 45000, res_margin_per_unit = 5000,
               res_max_units_by_margin = 2, res_per_unit_risk = 1000,
               res_units_by_risk = 2 / 10, res_recommended_units = 2 / 10,
               res_recommended_margin_capital = 1000 \<rparr>"
  using scenario_B [of 45000 50000]
  by (simp add: liquidation_price_pos)

section \<open>Invalid leverage\<close>

text \<open>
  Claim C3. \<open>liquidation_price\<close> and \<open>margin_per_unit\<close> raise exactly when the leverage is
  not positive, and what they raise is the \<open>ValueError\<close> of lines 76 and 83; for every
  positive leverage they return a value. \<open>recommend_units\<close> raises exactly when the
  leverage of the request is not positive, with the same error, for every request and
  live price.
\<close>

theorem invalid_leverage_iff:
  "(isl (liquidation_price e l s) \<longleftrightarrow> l \<le> 0)
   \<and> (liquidation_price e l s = Inl (ValueError ''leverage must be positive'') \<longleftrightarrow> l \<le> 0)
   \<and> (isl (margin_per_unit e l) \<longleftrightarrow> l \<le> 0)
   \<and> (margin_per_unit e l = Inl (ValueError ''leverage must be positive'') \<longleftrightarrow> l \<le> 0)
   \<and> (isl (recommend_units inp p) \<longleftrightarrow> leverage inp \<le> 0)
   \<and> (recommend_units inp p = Inl (ValueError ''leverage must be positive'')
        \<longleftrightarrow> leverage inp \<le> 0)"
proof -
  have a: "isl (liquidation_price e l s) \<longleftrightarrow> l \<le> 0"
    "liquidation_price e l s = Inl (ValueError ''leverage must be positive'') \<longleftrightarrow> l \<le> 0"
    by (cases "l \<le> 0"; simp add: liquidation_price_pos liquidation_price_nonpos)+
  have b: "isl (margin_per_unit e l) \<longleftrightarrow> l \<le> 0"
    "margin_per_unit e l = Inl (ValueError ''leverage must be positive'') \<longleftrightarrow> l \<le> 0"
    by (cases "l \<le> 0"; simp add: margin_per_unit_pos margin_per_unit_nonpos)+
  have c: "isl (recommend_units inp p) \<longleftrightarrow> leverage inp \<le> 0"
    "recommend_units inp p = Inl (ValueError ''leverage must be positive'')
       \<longleftrightarrow> leverage inp \<le> 0"
    by (cases "leverage inp \<le> 0";
        simp add: recommend_units_pos recommend_units_nonpos Let_def)+
  from a b c show ?thesis by blast
qed

section \<open>Degenerate inputs\<close>

text \<open>
  Claim C4, as the code has it. With a positive leverage \<open>recommend_units\<close> never raises.
  It recommends 0 units when the entry is not positive or the equity is 0. With a negative
  equity and a positive entry, or with a stop on the wrong side of the entry (a stop is
  given and the per-unit risk is 0), the risk-based cap is not positive, so it is left out
  of the candidates (line 131) and the recommendation is the margin-based cap, unless the
  liquidation override of line 138 sets it to 0.
\<close>

theorem degenerate_inputs_amended:
  assumes "0 < leverage inp"
  shows "\<exists>r. recommend_units inp p = Inr r
    \<and> (entry inp \<le> 0 \<or> equity_usd inp = 0 \<longrightarrow> res_recommended_units r = 0)
    \<and> ((equity_usd inp < 0 \<and> 0 < entry inp)
        \<or> (stop_loss inp \<noteq> None \<and> per_unit_risk (entry inp) (stop_loss inp) (side inp) = 0)
       \<longrightarrow> res_units_by_risk r \<le> 0
           \<and> res_recommended_units r =
             (if (side inp = Long \<and> p \<le> res_liquidation_price r)
                 \<or> (side inp = Short \<and> res_liquidation_price r \<le> p)
              then 0 else res_max_units_by_margin r))"
proof -
  from assms obtain r where r: "recommend_units inp p = Inr r"
    and m: "res_max_units_by_margin r =
           (if entry inp \<le> 0 then 0 else equity_usd inp / (entry inp / leverage inp))"
    and pu: "res_per_unit_risk r = per_unit_risk (entry inp) (stop_loss inp) (side inp)"
    and u: "res_units_by_risk r =
           (if res_per_unit_risk r \<le> 0 then 0
            else equity_usd inp * max 0 (risk_percent inp) / res_per_unit_risk r)"
    and rec: "res_recommended_units r =
           (if (side inp = Long \<and> p \<le> res_liquidation_price r)
               \<or> (side inp = Short \<and> res_liquidation_price r \<le> p) then 0
            else if 0 < res_units_by_risk r \<and> res_units_by_risk r < res_max_units_by_margin r
              then res_units_by_risk r
            else res_max_units_by_margin r)"
    by (rule recommend_units_fields [of inp p])
  have zero: "res_recommended_units r = 0" if "entry inp \<le> 0 \<or> equity_usd inp = 0"
  proof -
    from that m have "res_max_units_by_margin r = 0" by auto
    then show ?thesis unfolding rec by simp
  qed
  have fallback: "res_units_by_risk r \<le> 0"
    if "equity_usd inp < 0 \<or> per_unit_risk (entry inp) (stop_loss inp) (side inp) = 0"
    using that unfolding u pu by (auto simp: divide_le_0_iff mult_le_0_iff)
  have margin_only: "res_recommended_units r =
             (if (side inp = Long \<and> p \<le> res_liquidation_price r)
                 \<or> (side inp = Short \<and> res_liquidation_price r \<le> p)
              then 0 else res_max_units_by_margin r)"
    if "res_units_by_risk r \<le> 0"
    using that unfolding rec by simp
  from r zero fallback margin_only show ?thesis by blast
qed

theorem degenerate_inputs_amended_witness:
  "0 < leverage \<lparr>equity_usd = 10000, entry = - 5, leverage = 10, side = Long,
                  stop_loss = Some 51000, risk_percent = 2 / 100\<rparr>
   \<and> entry \<lparr>equity_usd = 10000, entry = - 5, leverage = 10, side = Long,
                  stop_loss = Some 51000, risk_percent = 2 / 100\<rparr> \<le> 0
   \<and> (\<exists>r. recommend_units \<lparr>equity_usd = 10000, entry = - 5, leverage = 10, side = Long,
                  stop_loss = Some 51000, risk_percent = 2 / 100\<rparr> 50000 = Inr r
          \<and> res_recommended_units r = 0)
   \<and> 0 < leverage \<lparr>equity_usd = 10000, entry = 50000, leverage = 10, side = Long,
                  stop_loss = Some 51000, risk_percent = 2 / 100\<rparr>
   \<and> stop_loss \<lparr>equity_usd = 10000, entry = 50000, leverage = 10, side = Long,
                  stop_loss = Some 51000, risk_percent = 2 / 100\<rparr> \<noteq> None
   \<and> per_unit_risk 50000 (Some 51000) Long = 0
   \<and> (\<exists>r. recommend_units \<lparr>equity_usd = 10000, entry = 50000, leverage = 10, side = Long,
                  stop_loss = Some 51000, risk_percent = 2 / 100\<rparr> 50000 = Inr r
          \<and> res_units_by_risk r \<le> 0
          \<and> res_max_units_by_margin r = 2
          \<and> res_recommended_units r = 2)
   \<and> equity_usd \<lparr>equity_usd = - 10000, entry = 50000, leverage = 10, side = Long,
                  stop_loss = Some 49000, risk_percent = 2 / 100\<rparr> < 0
   \<and> (\<exists>r. recommend_units \<lparr>equity_usd = - 10000, entry = 50000, leverage = 10,
                  side = Long, stop_loss = Some 49000, risk_percent = 2 / 100\<rparr> 50000 = Inr r
          \<and> res_units_by_risk r \<le> 0
          \<and> res_max_units_by_margin r = - 2
          \<and> res_recommended_units r = - 2)"
proof -
  let ?a = "\<lparr>equity_usd = 10000, entry = - 5, leverage = 10, side = Long,
             stop_loss = Some 51000, risk_percent = 2 / 100\<rparr>"
  let ?b = "\<lparr>equity_usd = 10000, entry = 50000, leverage = 10, side = Long,
             stop_loss = Some 51000, risk_percent = 2 / 100\<rparr>"
  have pu: "per_unit_risk 50000 (Some 51000) Long = 0"
    by (simp add: per_unit_risk_def)
  from degenerate_inputs_amended [of ?a 50000]
  obtain ra where ra: "recommend_units ?a 50000 = Inr ra" "res_recommended_units ra = 0"
    by auto
  from degenerate_inputs_amended [of ?b 50000] pu
  obtain rb where rb: "recommend_units ?b 50000 = Inr rb" "res_units_by_risk rb \<le> 0"
    "res_recommended_units rb =
       (if 50000 \<le> res_liquidation_price rb then 0 else res_max_units_by_margin rb)"
    by auto
  from rb(1) have "res_max_units_by_margin rb = 2" "res_liquidation_price rb = 45000"
    by (auto simp add: recommend_units_pos per_unit_risk_def Let_def)
  with rb have b: "res_max_units_by_margin rb = 2" "res_recommended_units rb = 2"
    by simp_all
  let ?c = "\<lparr>equity_usd = - 10000, entry = 50000, leverage = 10, side = Long,
             stop_loss = Some 49000, risk_percent = 2 / 100\<rparr>"
  from degenerate_inputs_amended [of ?c 50000]
  obtain rc where rc: "recommend_units ?c 50000 = Inr rc" "res_units_by_risk rc \<le> 0"
    "res_recommended_units rc =
       (if 50000 \<le> res_liquidation_price rc then 0 else res_max_units_by_margin rc)"
    by auto
  from rc(1) have "res_max_units_by_margin rc = - 2" "res_liquidation_price rc = 45000"
    by (auto simp add: recommend_units_pos per_unit_risk_def Let_def)
  with rc have c: "res_max_units_by_margin rc = - 2" "res_recommended_units rc = - 2"
    by simp_all
  from ra rb(1,2) b pu rc(1,2) c show ?thesis by simp
qed

text \<open>
  The recommendation is not 0 for every degenerate input: with the stop at 51000 above a
  long entry at 50000 the margin-based cap 2 is recommended, and with an equity of -10000
  the recommendation is -2.
\<close>

theorem degenerate_inputs_counterexample:
  "recommend_units \<lparr>equity_usd = 10000, entry = 50000, leverage = 10, side = Long,
       stop_loss = Some 51000, risk_percent = 2 / 100\<rparr> 50000 =
     Inr \<lparr> res_entry = 50000, res_live_price = 50000, res_side = Long, res_leverage = 10,
           res_equity_usd = 10000, res_stop_loss = Some 51000, res_risk_percent = 2 / 100,
           res_liquidation_price = 45000, res_margin_per_unit = 5000,
           res_max_units_by_margin = 2, res_per_unit_risk = 0,
           res_units_by_risk = 0, res_recommended_units = 2,
           res_recommended_margin_capital = 10000 \<rparr>
   \<and> recommend_units \<lparr>equity_usd = - 10000, entry = 50000, leverage = 10, side = Long,
       stop_loss = Some 49000, risk_percent = 2 / 100\<rparr> 50000 =
     Inr \<lparr> res_entry = 50000, res_live_price = 50000, res_side = Long, res_leverage = 10,
           res_equity_usd = - 10000, res_stop_loss = Some 49000, res_risk_percent = 2 / 100,
           res_liquidation_price = 45000, res_margin_per_unit = 5000,
           res_max_units_by_margin = - 2, res_per_unit_risk = 1000,
           res_units_by_risk = - (2 / 10), res_recommended_units = - 2,
           res_recommended_margin_capital = - 10000 \<rparr>"
  by (simp add: recommend_units_pos per_unit_risk_def Let_def)

section \<open>No stop supplied\<close>

text \<open>
  Claim C5, as the code has it. With a positive leverage and no stop, the risk-based cap
  is 0 and is not a candidate: the recommended units are the margin-based cap
  \<open>max_units_affordable\<close> when the live price is not beyond the liquidation price, and 0
  when it is.
\<close>

theorem no_stop_amended:
  assumes "0 < leverage inp" and "stop_loss inp = None"
  shows "\<exists>r m liq. recommend_units inp p = Inr r
      \<and> max_units_affordable (equity_usd inp) (entry inp) (leverage inp) = Inr m
      \<and> liquidation_price (entry inp) (leverage inp) (side inp) = Inr liq
      \<and> res_units_by_risk r = 0
      \<and> res_max_units_by_margin r = m
      \<and> res_recommended_units r =
          (if (side inp = Long \<and> p \<le> liq) \<or> (side inp = Short \<and> liq \<le> p) then 0 else m)"
proof -
  from assms(2) have pu: "per_unit_risk (entry inp) (stop_loss inp) (side inp) = 0"
    by (simp add: per_unit_risk_def)
  show ?thesis
    unfolding recommend_units_pos [OF assms(1)] max_units_affordable_pos [OF assms(1)]
      liquidation_price_pos [OF assms(1)] Let_def pu
    by simp
qed

theorem no_stop_amended_witness:
  "0 < leverage \<lparr>equity_usd = 10000, entry = 50000, leverage = 10, side = Long,
                  stop_loss = None, risk_percent = 2 / 100\<rparr>
   \<and> stop_loss \<lparr>equity_usd = 10000, entry = 50000, leverage = 10, side = Long,
                  stop_loss = None, risk_percent = 2 / 100\<rparr> = None
   \<and> max_units_affordable 10000 50000 10 = Inr 2
   \<and> liquidation_price 50000 10 Long = Inr 45000
   \<and> (\<exists>r. recommend_units \<lparr>equity_usd = 10000, entry = 50000, leverage = 10, side = Long,
                  stop_loss = None, risk_percent = 2 / 100\<rparr> 50000 = Inr r
          \<and> res_units_by_risk r = 0 \<and> res_max_units_by_margin r = 2
          \<and> res_recommended_units r = 2)"
  using no_stop_amended [of "\<lparr>equity_usd = 10000, entry = 50000, leverage = 10, side = Long,
                  stop_loss = None, risk_percent = 2 / 100\<rparr>" 50000]
  by (simp add: max_units_affordable_pos liquidation_price_pos)

text \<open>
  Without a stop the recommendation differs from the margin-based cap once the live price
  has crossed the liquidation price: at 44000, below 45000, it is 0 and the cap is 2.
\<close>

theorem no_stop_counterexample:
  "recommend_units \<lparr>equity_usd = 10000, entry = 50000, leverage = 10, side = Long,
       stop_loss = None, risk_percent = 2 / 100\<rparr> 44000 =
     Inr \<lparr> res_entry = 50000, res_live_price = 44000, res_side = Long, res_leverage = 10,
           res_equity_usd = 10000, res_stop_loss = None, res_risk_percent = 2 / 100,
           res_liquidation_price = 45000, res_margin_per_unit = 5000,
           res_max_units_by_margin = 2, res_per_unit_risk = 0,
           res_units_by_risk = 0, res_recommended_units = 0,
           res_recommended_margin_capital = 0 \<rparr>
   \<and> max_units_affordable 10000 50000 10 = Inr 2"
  by (simp add: recommend_units_pos max_units_affordable_pos per_unit_risk_def Let_def)

section \<open>Units affordable by margin\<close>

text \<open>
  Claim C6, as the code has it. \<open>max_units_affordable\<close> raises the \<open>ValueError\<close> of
  \<open>margin_per_unit\<close> when the leverage is not positive. With a positive leverage it returns
  0 when the entry is not positive; in general it returns 0 when the margin per unit that
  \<open>margin_per_unit\<close> computed is not positive (the guard of line 88), and the equity divided
  by that margin per unit when it is positive. The last case is stated on the computed
  margin, not on the sign of the entry, so that it does not rest on the division of a
  positive entry by a positive leverage being positive.
\<close>

theorem max_units_affordable_cases:
  "(l \<le> 0 \<longrightarrow> max_units_affordable q e l = Inl (ValueError ''leverage must be positive''))
   \<and> (0 < l \<and> e \<le> 0 \<longrightarrow> max_units_affordable q e l = Inr 0)
   \<and> (0 < l \<longrightarrow>
        (\<exists>mpu. margin_per_unit e l = Inr mpu
           \<and> max_units_affordable q e l = Inr (if mpu \<le> 0 then 0 else q / mpu)))"
proof (intro conjI impI)
  assume "l \<le> 0"
  then show "max_units_affordable q e l = Inl (ValueError ''leverage must be positive'')"
    by (rule max_units_affordable_nonpos)
next
  assume "0 < l \<and> e \<le> 0"
  then show "max_units_affordable q e l = Inr 0"
    by (simp add: max_units_affordable_pos)
next
  assume l: "0 < l"
  then have "margin_per_unit e l = Inr (e / l)"
    by (rule margin_per_unit_pos)
  then show "\<exists>mpu. margin_per_unit e l = Inr mpu
      \<and> max_units_affordable q e l = Inr (if mpu \<le> 0 then 0 else q / mpu)"
    by (simp add: max_units_affordable_def and_then_def py_div_def)
qed

theorem max_units_affordable_cases_witness:
  "(- 10 :: real) \<le> 0
   \<and> max_units_affordable 10000 50000 (- 10) = Inl (ValueError ''leverage must be positive'')
   \<and> (0 :: real) < 10 \<and> (- 5 :: real) \<le> 0
   \<and> max_units_affordable 10000 (- 5) 10 = Inr 0
   \<and> margin_per_unit 50000 10 = Inr 5000
   \<and> max_units_affordable 10000 50000 10 = Inr 2"
  using max_units_affordable_cases [of "- 10" 10000 50000]
    max_units_affordable_cases [of 10 10000 "- 5"]
    max_units_affordable_cases [of 10 10000 50000]
  by (simp add: margin_per_unit_pos)

text \<open>A negative leverage does not give 0: the call raises.\<close>

theorem max_units_nonpositive_leverage_counterexample:
  "max_units_affordable 10000 50000 (- 10) = Inl (ValueError ''leverage must be positive'')"
  by (simp add: max_units_affordable_nonpos)

section \<open>Per-unit risk\<close>

text \<open>
  Claim C8. \<open>per_unit_risk\<close> is never negative, for every entry, side and optional stop,
  and it is exactly 0 when no stop is given.
\<close>

theorem per_unit_risk_clamp:
  "0 \<le> per_unit_risk e sl s \<and> per_unit_risk e None s = 0"
  by (simp add: per_unit_risk_def split: option.split)

section \<open>The live price as a frame\<close>

text \<open>
  Claim C10. For a request with a positive leverage and any two live prices, the two
  assessments agree on every field other than the echo of the live price, the recommended
  units and the recommended margin capital: the echoes of the inputs, the liquidation
  price, the margin per unit, the margin-based cap, the per-unit risk and the risk-based
  cap do not depend on the live price.
\<close>

theorem live_price_frame:
  assumes "0 < leverage inp"
  shows "\<exists>r1 r2. recommend_units inp p1 = Inr r1 \<and> recommend_units inp p2 = Inr r2
      \<and> res_entry r1 = res_entry r2
      \<and> res_side r1 = res_side r2
      \<and> res_leverage r1 = res_leverage r2
      \<and> res_equity_usd r1 = res_equity_usd r2
      \<and> res_stop_loss r1 = res_stop_loss r2
      \<and> res_risk_percent r1 = res_risk_percent r2
      \<and> res_liquidation_price r1 = res_liquidation_price r2
      \<and> res_margin_per_unit r1 = res_margin_per_unit r2
      \<and> res_max_units_by_margin r1 = res_max_units_by_margin r2
      \<and> res_per_unit_risk r1 = res_per_unit_risk r2
      \<and> res_units_by_risk r1 = res_units_by_risk r2"
  unfolding recommend_units_pos [OF assms] Let_def
  by simp

theorem live_price_frame_witness:
  "0 < leverage \<lparr>equity_usd = 10000, entry = 50000, leverage = 10, side = Long,
                  stop_loss = Some 49000, risk_percent = 2 / 100\<rparr>
   \<and> (\<exists>r1 r2.
        recommend_units \<lparr>equity_usd = 10000, entry = 50000, leverage = 10, side = Long,
                  stop_loss = Some 49000, risk_percent = 2 / 100\<rparr> 50000 = Inr r1
      \<and> recommend_units \<lparr>equity_usd = 10000, entry = 50000, leverage = 10, side = Long,
                  stop_loss = Some 49000, risk_percent = 2 / 100\<rparr> 44000 = Inr r2
      \<and> res_entry r1 = res_entry r2
      \<and> res_side r1 = res_side r2
      \<and> res_leverage r1 = res_leverage r2
      \<and> res_equity_usd r1 = res_equity_usd r2
      \<and> res_stop_loss r1 = res_stop_loss r2
      \<and> res_risk_percent r1 = res_risk_percent r2
      \<and> res_liquidation_price r1 = res_liquidation_price r2
      \<and> res_margin_per_unit r1 = res_margin_per_unit r2
      \<and> res_max_units_by_margin r1 = res_max_units_by_margin r2
      \<and> res_per_unit_risk r1 = res_per_unit_risk r2
      \<and> res_units_by_risk r1 = res_units_by_risk r2)"
  using live_price_frame [of "\<lparr>equity_usd = 10000, entry = 50000, leverage = 10,
        side = Long, stop_loss = Some 49000, risk_percent = 2 / 100\<rparr>" 50000 44000]
  by simp

end
